theory Spec2Isabelle
  imports Main
begin

section \<open>Python values used by the agent core\<close>

text \<open>
  The exceptions raised by \<^verbatim>\<open>src/api/Agents/Agent.py\<close> and
  \<^verbatim>\<open>src/api/client.py\<close>, each with its message. The specification calls the
  \<^verbatim>\<open>ValueError\<close> of the registry lookups \<^verbatim>\<open>ConfigurationError\<close> and the
  \<^verbatim>\<open>ValueError\<close> of the suffix check \<^verbatim>\<open>UnsupportedTargetError\<close>.
  \<^verbatim>\<open>LibraryError\<close> stands for whatever the external \<^verbatim>\<open>mcp\<close> package raises.
\<close>

datatype py_error =
    ValueError string
  | NotImplementedError string
  | NameError string
  | LibraryError string


subsection \<open>Dictionaries\<close>

text \<open>
  A Python \<^verbatim>\<open>dict\<close> keeps its keys in insertion order, and
  \<^verbatim>\<open>next(iter(d))\<close> reads the first of them, so a dictionary is the list of its
  items in that order. Server names are \<^verbatim>\<open>str\<close>; a configuration is an opaque
  value of type \<open>'c\<close>. The keys of a dictionary are distinct, and the operations
  below keep them so (\<open>distinct_dict_setitem\<close>, \<open>distinct_dict_pop\<close>).
\<close>

type_synonym 'c dict = "(string \<times> 'c) list"

definition dict_contains :: "'c dict \<Rightarrow> string \<Rightarrow> bool" where
  \<comment> \<open>\<^verbatim>\<open>k in d\<close>\<close>
  "dict_contains d k = (k \<in> set (map fst d))"

fun dict_setitem :: "'c dict \<Rightarrow> string \<Rightarrow> 'c \<Rightarrow> 'c dict" where
  \<comment> \<open>\<^verbatim>\<open>d[k] = v\<close>: a present key keeps its place, a new key goes last\<close>
  "dict_setitem [] k v = [(k, v)]"
| "dict_setitem ((k', v') # d) k v =
     (if k' = k then (k', v) # d else (k', v') # dict_setitem d k v)"

definition dict_pop :: "'c dict \<Rightarrow> string \<Rightarrow> 'c dict" where
  \<comment> \<open>\<^verbatim>\<open>d.pop(k)\<close> for a key that is present: the dictionary that is left\<close>
  "dict_pop d k = filter (\<lambda>item. fst item \<noteq> k) d"

definition first_key_or_None :: "'c dict \<Rightarrow> string option" where
  \<comment> \<open>\<^verbatim>\<open>next(iter(d)) if d else None\<close>\<close>
  "first_key_or_None d = (case d of [] \<Rightarrow> None | item # _ \<Rightarrow> Some (fst item))"

subsection \<open>Truthiness of an optional string\<close>

definition truthy :: "string option \<Rightarrow> bool" where
  \<comment> \<open>\<^verbatim>\<open>bool(x)\<close>: \<^verbatim>\<open>None\<close> and the empty string are false\<close>
  "truthy x = (case x of None \<Rightarrow> False | Some s \<Rightarrow> s \<noteq> [])"

definition py_or :: "string option \<Rightarrow> string option \<Rightarrow> string option" where
  \<comment> \<open>\<^verbatim>\<open>x or y\<close>\<close>
  "py_or x y = (if truthy x then x else y)"

subsection \<open>The object store\<close>

text \<open>
  \<^verbatim>\<open>self.mcp_servers\<close> holds a reference to a dictionary object: the constructor
  keeps the caller's dictionary, the methods update it in place and
  \<^verbatim>\<open>get_mcp_servers\<close> hands the same object out. The store maps each reference
  to the dictionary found there; \<open>next_ref\<close> is the next unused reference.
\<close>

type_synonym ref = nat

record 'c heap =
  dicts :: "ref \<Rightarrow> 'c dict"
  next_ref :: ref

definition empty_heap :: "'c heap" where
  "empty_heap = \<lparr>dicts = (\<lambda>r. []), next_ref = 0\<rparr>"

definition alloc :: "'c dict \<Rightarrow> 'c heap \<Rightarrow> ref \<times> 'c heap" where
  \<comment> \<open>a new dictionary object, as the literal \<^verbatim>\<open>{}\<close> makes one\<close>
  "alloc d h = (next_ref h, \<lparr>dicts = (dicts h)(next_ref h := d), next_ref = Suc (next_ref h)\<rparr>)"

definition heap_update :: "ref \<Rightarrow> ('c dict \<Rightarrow> 'c dict) \<Rightarrow> 'c heap \<Rightarrow> 'c heap" where
  \<comment> \<open>an in-place mutation \<open>f\<close> of the dictionary behind reference \<open>r\<close>\<close>
  "heap_update r f h = h\<lparr>dicts := (dicts h)(r := f (dicts h r))\<rparr>"

section \<open>The agent (\<^verbatim>\<open>src/api/Agents/Agent.py\<close>)\<close>

record 'k agent =
  name :: string
  instructions :: string
  mcp_servers :: ref
  active_mcp_server :: "string option"
  config :: 'k

definition registry :: "'c heap \<Rightarrow> 'k agent \<Rightarrow> 'c dict" where
  \<comment> \<open>the dictionary \<^verbatim>\<open>self.mcp_servers\<close> refers to\<close>
  "registry h self = dicts h (mcp_servers self)"

definition init ::
  "string \<Rightarrow> string \<Rightarrow> ref option \<Rightarrow> 'k \<Rightarrow> 'c heap \<Rightarrow> 'c heap \<times> 'k agent" where
  \<comment> \<open>\<^verbatim>\<open>Agent.__init__\<close>; \<^verbatim>\<open>mcp_servers or {}\<close> keeps a non-empty argument and makes
      a new dictionary otherwise\<close>
  "init nm instr mcp_servers_arg kwargs h =
     (let (r, h') =
            (case mcp_servers_arg of
               None \<Rightarrow> alloc [] h
             | Some p \<Rightarrow> if dicts h p \<noteq> [] then (p, h) else alloc [] h)
      in (h', \<lparr>name = nm, instructions = instr, mcp_servers = r,
               active_mcp_server = first_key_or_None (dicts h' r), config = kwargs\<rparr>))"

definition add_mcp_server ::
  "string \<Rightarrow> 'c \<Rightarrow> 'c heap \<times> 'k agent \<Rightarrow> 'c heap \<times> 'k agent" where
  "add_mcp_server server_name cfg = (\<lambda>(h, self).
     let h' = heap_update (mcp_servers self) (\<lambda>d. dict_setitem d server_name cfg) h
     in if active_mcp_server self = None
        then (h', self\<lparr>active_mcp_server := Some server_name\<rparr>)
        else (h', self))"

definition remove_mcp_server ::
  "string \<Rightarrow> 'c heap \<times> 'k agent \<Rightarrow> bool \<times> 'c heap \<times> 'k agent" where
  "remove_mcp_server server_name = (\<lambda>(h, self).
     if dict_contains (registry h self) server_name then
       let h' = heap_update (mcp_servers self) (\<lambda>d. dict_pop d server_name) h
       in if active_mcp_server self = Some server_name
          then (True, h', self\<lparr>active_mcp_server := first_key_or_None (registry h' self)\<rparr>)
          else (True, h', self)
     else (False, h, self))"

definition set_active_mcp_server ::
  "string \<Rightarrow> 'c heap \<times> 'k agent \<Rightarrow> bool \<times> 'c heap \<times> 'k agent" where
  "set_active_mcp_server server_name = (\<lambda>(h, self).
     if dict_contains (registry h self) server_name
     then (True, h, self\<lparr>active_mcp_server := Some server_name\<rparr>)
     else (False, h, self))"

definition get_mcp_servers :: "'c heap \<times> 'k agent \<Rightarrow> ref" where
  \<comment> \<open>\<^verbatim>\<open>return self.mcp_servers\<close>: the reference itself, no copy\<close>
  "get_mcp_servers = (\<lambda>(h, self). mcp_servers self)"

definition not_found_message :: "string \<Rightarrow> string" where
  \<comment> \<open>\<^verbatim>\<open>f"MCP server '{target_server}' not found"\<close>\<close>
  "not_found_message t = ''MCP server '' @ [CHR 0x27] @ t @ [CHR 0x27] @ '' not found''"

definition no_server_message :: string where
  "no_server_message = ''No MCP server specified and no active server configured''"

definition execute_tool ::
  "string \<Rightarrow> 'i \<Rightarrow> string option \<Rightarrow> 'c heap \<times> 'k agent \<Rightarrow> py_error + 'r" where
  \<comment> \<open>no statement of the method assigns: it only reads the state and raises\<close>
  "execute_tool tool_name tool_input server_name = (\<lambda>(h, self).
     let target_server = py_or server_name (active_mcp_server self)
     in if \<not> truthy target_server then Inl (ValueError no_server_message)
        else if \<not> dict_contains (registry h self) (the target_server)
        then Inl (ValueError (not_found_message (the target_server)))
        else Inl (NotImplementedError ''Tool execution must be implemented by subclasses''))"

definition get_available_tools ::
  "string option \<Rightarrow> 'c heap \<times> 'k agent \<Rightarrow> py_error + 'r" where
  "get_available_tools server_name = (\<lambda>(h, self).
     let target_server = py_or server_name (active_mcp_server self)
     in if \<not> truthy target_server then Inl (ValueError no_server_message)
        else if \<not> dict_contains (registry h self) (the target_server)
        then Inl (ValueError (not_found_message (the target_server)))
        else Inl (NotImplementedError
                   ''Getting available tools must be implemented by subclasses''))"

subsection \<open>Sequences of registry calls\<close>

datatype 'c call =
    Add_server string 'c
  | Remove_server string
  | Set_active string

fun do_call :: "'c call \<Rightarrow> 'c heap \<times> 'k agent \<Rightarrow> 'c heap \<times> 'k agent" where
  "do_call (Add_server n cfg) s = add_mcp_server n cfg s"
| "do_call (Remove_server n) s = snd (remove_mcp_server n s)"
| "do_call (Set_active n) s = snd (set_active_mcp_server n s)"

fun run_calls :: "'c call list \<Rightarrow> 'c heap \<times> 'k agent \<Rightarrow> 'c heap \<times> 'k agent" where
  "run_calls [] s = s"
| "run_calls (c # cs) s = run_calls cs (do_call c s)"

definition active_invariant :: "'c heap \<times> 'k agent \<Rightarrow> bool" where
  "active_invariant = (\<lambda>(h, self).
     (active_mcp_server self = None \<longleftrightarrow> registry h self = []) \<and>
     (case active_mcp_server self of
        None \<Rightarrow> True
      | Some x \<Rightarrow> dict_contains (registry h self) x))"

section \<open>The client (\<^verbatim>\<open>src/api/client.py\<close>)\<close>

definition endswith :: "string \<Rightarrow> string \<Rightarrow> bool" where
  \<comment> \<open>\<^verbatim>\<open>s.endswith(suffix)\<close>\<close>
  "endswith s suffix =
     (length suffix \<le> length s \<and> drop (length s - length suffix) s = suffix)"

record stdio_server_parameters =
  command :: string
  args :: "string list"
  env :: "(string \<times> string) list option"

text \<open>
  The values a name of \<^verbatim>\<open>connect_to_local_mcp\<close> can be bound to, and what the
  external \<^verbatim>\<open>mcp\<close> package hands back: the pair of streams of an open transport
  and the session built on them.
\<close>

datatype py_value =
    PStr string
  | PBool bool
  | PParams stdio_server_parameters
  | PSelf
  | PGlobal string

datatype stream = ReadStream nat | WriteStream nat

datatype client_session = ClientSession stream stream

datatype context_manager =
    Stdio_client py_value
  | Session_context client_session

record client =
  session :: "client_session option"
  exit_stack :: "context_manager list"
  llm :: "unit option"
  tools :: "unit list"
  message :: "unit list"
  stdio :: "stream option"
  write_attr :: "stream option"

definition MCPClient_init :: client where
  \<comment> \<open>\<^verbatim>\<open>MCPClient.__init__\<close>; the attributes \<^verbatim>\<open>stdio\<close> and
      \<^verbatim>\<open>write\<close> (the field \<open>write_attr\<close>) do not exist yet\<close>
  "MCPClient_init =
     \<lparr>session = None, exit_stack = [], llm = None, tools = [], message = [],
      stdio = None, write_attr = None\<rparr>"

text \<open>
  What lies outside the program: the subprocesses that are running, and the behaviour of
  the \<^verbatim>\<open>mcp\<close> package, which the source only calls. Entering
  \<^verbatim>\<open>stdio_client(v)\<close> either raises or starts the server process and yields its two
  streams; \<^verbatim>\<open>session.initialize()\<close> either raises or returns.
\<close>

record world =
  processes :: "py_value list"

record mcp_library =
  enter_stdio_client :: "py_value \<Rightarrow> py_error + (stream \<times> stream)"
  initialize :: "client_session \<Rightarrow> py_error + unit"

definition module_globals :: "string list" where
  \<comment> \<open>the names bound at module level by lines 1 to 7 of \<^verbatim>\<open>client.py\<close>\<close>
  "module_globals =
     [''Optional'', ''AsyncExitStack'', ''ClientSession'', ''StdioServerParameters'',
      ''stdio_client'', ''asyncio'', ''MCPClient'']"

definition name_error_message :: "string \<Rightarrow> string" where
  "name_error_message n = ''name '' @ [CHR 0x27] @ n @ [CHR 0x27] @ '' is not defined''"

definition load_name :: "(string \<times> py_value) list \<Rightarrow> string \<Rightarrow> py_error + py_value" where
  \<comment> \<open>reading a name inside the method: the local variables first, then the module's
      globals (Python's builtins hold no name read here)\<close>
  "load_name frame n =
     (case map_of frame n of
        Some v \<Rightarrow> Inr v
      | None \<Rightarrow> if n \<in> set module_globals then Inr (PGlobal n)
                else Inl (NameError (name_error_message n)))"

definition open_and_initialize ::
  "mcp_library \<Rightarrow> py_value \<Rightarrow> client \<times> world \<Rightarrow> (py_error + unit) \<times> client \<times> world" where
  \<comment> \<open>lines 27 to 31, once the argument of \<^verbatim>\<open>stdio_client\<close> has a value \<open>v\<close>:
      both context managers are pushed on \<^verbatim>\<open>self.exit_stack\<close>, which nothing closes\<close>
  "open_and_initialize lib v = (\<lambda>(self, w).
     case enter_stdio_client lib v of
       Inl e \<Rightarrow> (Inl e, self, w)
     | Inr (rd, wr) \<Rightarrow>
         let w1 = w\<lparr>processes := v # processes w\<rparr>;
             self1 = self\<lparr>exit_stack := Stdio_client v # exit_stack self\<rparr>;
             self2 = self1\<lparr>stdio := Some rd, write_attr := Some wr\<rparr>;
             s = ClientSession rd wr;
             self3 = self2\<lparr>exit_stack := Session_context s # exit_stack self2,
                           session := Some s\<rparr>
         in (case initialize lib s of
               Inl e \<Rightarrow> (Inl e, self3, w1)
             | Inr u \<Rightarrow> (Inr (), self3, w1)))"

definition connect_to_local_mcp ::
  "mcp_library \<Rightarrow> string \<Rightarrow> client \<times> world \<Rightarrow> (py_error + unit) \<times> client \<times> world" where
  "connect_to_local_mcp lib server_script_path = (\<lambda>(self, w).
     let is_python = endswith server_script_path ''.py'';
         is_js = endswith server_script_path ''.js''
     in if \<not> (is_python \<or> is_js)
        then (Inl (ValueError ''Server script must be a .py or .js file''), self, w)
        else
          let command = (if is_python then ''python'' else ''node'');
              server_parameters =
                \<lparr>command = command, args = [server_script_path], env = None\<rparr>;
              frame =
                [(''self'', PSelf),
                 (''server_script_path'', PStr server_script_path),
                 (''is_python'', PBool is_python),
                 (''is_js'', PBool is_js),
                 (''command'', PStr command),
                 (''server_parameters'', PParams server_parameters)]
          in case load_name frame ''server_params'' of
               Inl e \<Rightarrow> (Inl e, self, w)
             | Inr v \<Rightarrow> open_and_initialize lib v (self, w))"

section \<open>Example states\<close>

text \<open>
  A freshly constructed agent with no servers, and the states after
  \<^verbatim>\<open>add_mcp_server("a", cfg_a)\<close> and \<^verbatim>\<open>add_mcp_server("b", cfg_b)\<close>.
\<close>

definition fresh_agent :: "string heap \<times> unit agent" where
  "fresh_agent = init ''agent'' ''instructions'' None () empty_heap"

definition agent_a :: "string heap \<times> unit agent" where
  "agent_a = add_mcp_server ''a'' ''cfg_a'' fresh_agent"

definition agent_ab :: "string heap \<times> unit agent" where
  "agent_ab = add_mcp_server ''b'' ''cfg_b'' agent_a"

definition mutate_returned_mapping ::
  "('c dict \<Rightarrow> 'c dict) \<Rightarrow> 'c heap \<times> 'k agent \<Rightarrow> 'c heap \<times> 'k agent" where
  \<comment> \<open>a caller's \<^verbatim>\<open>d = agent.get_mcp_servers()\<close> followed by an in-place change \<open>f\<close>
      of \<^verbatim>\<open>d\<close>\<close>
  "mutate_returned_mapping f s = (heap_update (get_mcp_servers s) f (fst s), snd s)"

definition caller_setitem :: "string \<Rightarrow> 'c \<Rightarrow> 'c dict \<Rightarrow> 'c dict" where
  \<comment> \<open>the caller's \<^verbatim>\<open>d[k] = v\<close>\<close>
  "caller_setitem k v d = dict_setitem d k v"

definition caller_clear :: "'c dict \<Rightarrow> 'c dict" where
  \<comment> \<open>the caller's \<^verbatim>\<open>d.clear()\<close>\<close>
  "caller_clear d = []"

text \<open>
  A library whose transport opens and whose handshake fails, and a world with no
  subprocess running.
\<close>

definition script_lib :: mcp_library where
  "script_lib =
     \<lparr>enter_stdio_client = (\<lambda>v. Inr (ReadStream 0, WriteStream 0)),
      initialize = (\<lambda>s. Inl (LibraryError ''initialize failed''))\<rparr>"

definition no_processes :: world where
  "no_processes = \<lparr>processes = []\<rparr>"

section \<open>Dictionary and store lemmas\<close>

lemma dict_contains_setitem:
  "dict_contains (dict_setitem d k v) k' \<longleftrightarrow> k' = k \<or> dict_contains d k'"
  by (induction d k v rule: dict_setitem.induct) (auto simp: dict_contains_def)

lemma dict_setitem_not_empty: "dict_setitem d k v \<noteq> []"
  by (induction d k v rule: dict_setitem.induct) auto

lemma dict_pop_not_empty: "dict_contains d x \<Longrightarrow> x \<noteq> k \<Longrightarrow> dict_pop d k \<noteq> []"
  by (induction d) (auto simp: dict_contains_def dict_pop_def)

lemma dict_contains_pop:
  "dict_contains (dict_pop d k) k' \<longleftrightarrow> k' \<noteq> k \<and> dict_contains d k'"
  by (auto simp: dict_contains_def dict_pop_def)

lemma map_of_dict_setitem: "map_of (dict_setitem d k v) = (map_of d)(k \<mapsto> v)"
  by (induction d) (auto simp: fun_eq_iff)

lemma map_of_dict_pop: "map_of (dict_pop d k) = (map_of d)(k := None)"
  by (induction d) (auto simp: dict_pop_def fun_eq_iff)

lemma first_key_None: "first_key_or_None d = None \<longleftrightarrow> d = []"
  by (cases d) (auto simp: first_key_or_None_def)

lemma first_key_Some: "first_key_or_None d = Some x \<Longrightarrow> dict_contains d x"
  by (cases d) (auto simp: first_key_or_None_def dict_contains_def)

lemma first_key_nonempty:
  "d \<noteq> [] \<Longrightarrow> \<exists>x. first_key_or_None d = Some x \<and> dict_contains d x"
  by (cases d) (auto simp: first_key_or_None_def dict_contains_def)

lemma first_key_pop:
  "dict_pop d n \<noteq> [] \<Longrightarrow>
     \<exists>x. first_key_or_None (dict_pop d n) = Some x \<and> x \<noteq> n \<and> dict_contains d x"
  using first_key_nonempty [of "dict_pop d n"] by (simp add: dict_contains_pop)

lemma distinct_dict_setitem:
  "distinct (map fst d) \<Longrightarrow> distinct (map fst (dict_setitem d k v))"
proof (induction d k v rule: dict_setitem.induct)
  case (1 k v)
  show ?case by simp
next
  case (2 k' v' d k v)
  have "k' \<notin> fst ` set (dict_setitem d k v)" if "k' \<noteq> k"
    using that 2 dict_contains_setitem [of d k v k'] by (simp add: dict_contains_def)
  with 2 show ?case by auto
qed

lemma distinct_dict_pop: "distinct (map fst d) \<Longrightarrow> distinct (map fst (dict_pop d k))"
  by (simp add: dict_pop_def distinct_map_filter)

lemma dict_contains_Nil: "\<not> dict_contains [] k"
  by (simp add: dict_contains_def)

lemma dict_contains_Cons:
  "dict_contains (item # d) k \<longleftrightarrow> k = fst item \<or> dict_contains d k"
  by (auto simp: dict_contains_def)

lemma registry_heap_update:
  "registry (heap_update (mcp_servers self) f h) self = f (registry h self)"
  by (simp add: registry_def heap_update_def)

lemma registry_active_update:
  "registry h (self\<lparr>active_mcp_server := x\<rparr>) = registry h self"
  by (simp add: registry_def)

section \<open>The active-selection invariant\<close>

lemma invariant_init: "active_invariant (init nm instr arg kwargs h)"
  by (auto simp: active_invariant_def init_def alloc_def registry_def first_key_None
        first_key_or_None_def dict_contains_def split: option.splits list.splits)

lemma invariant_add: "active_invariant s \<Longrightarrow> active_invariant (add_mcp_server n cfg s)"
  by (cases s) (auto simp: active_invariant_def add_mcp_server_def Let_def registry_heap_update
        registry_active_update dict_contains_setitem dict_setitem_not_empty dict_contains_Cons
        split: option.splits)

lemma invariant_remove: "active_invariant s \<Longrightarrow> active_invariant (snd (remove_mcp_server n s))"
  by (cases s) (auto simp: active_invariant_def remove_mcp_server_def Let_def registry_heap_update
        registry_active_update dict_contains_pop first_key_None dict_contains_Nil
        dest: first_key_Some dict_pop_not_empty split: option.splits)

lemma invariant_set_active:
  "active_invariant s \<Longrightarrow> active_invariant (snd (set_active_mcp_server n s))"
  by (cases s) (auto simp: active_invariant_def set_active_mcp_server_def registry_active_update
        dict_contains_Nil split: option.splits)

lemma invariant_do_call: "active_invariant s \<Longrightarrow> active_invariant (do_call c s)"
  by (cases c) (simp_all add: invariant_add invariant_remove invariant_set_active)

lemma invariant_run_calls: "active_invariant s \<Longrightarrow> active_invariant (run_calls cs s)"
  by (induction cs arbitrary: s) (simp_all add: invariant_do_call)


section \<open>Evaluation of the example states\<close>

lemmas agent_defs =
  init_def alloc_def empty_heap_def heap_update_def registry_def add_mcp_server_def
  remove_mcp_server_def set_active_mcp_server_def get_mcp_servers_def first_key_or_None_def
  dict_contains_Cons dict_contains_Nil dict_pop_def Let_def

lemma fresh_agent_eq:
  "fresh_agent =
     (\<lparr>dicts = (\<lambda>r. [])(0 := []), next_ref = Suc 0\<rparr>,
      \<lparr>name = ''agent'', instructions = ''instructions'', mcp_servers = 0,
       active_mcp_server = None, config = ()\<rparr>)"
  by (simp add: fresh_agent_def agent_defs)

lemma agent_a_eq:
  "agent_a =
     (\<lparr>dicts = (\<lambda>r. [])(0 := [(''a'', ''cfg_a'')]), next_ref = Suc 0\<rparr>,
      \<lparr>name = ''agent'', instructions = ''instructions'', mcp_servers = 0,
       active_mcp_server = Some ''a'', config = ()\<rparr>)"
  by (simp add: agent_a_def fresh_agent_eq agent_defs)

lemma agent_ab_eq:
  "agent_ab =
     (\<lparr>dicts = (\<lambda>r. [])(0 := [(''a'', ''cfg_a''), (''b'', ''cfg_b'')]), next_ref = Suc 0\<rparr>,
      \<lparr>name = ''agent'', instructions = ''instructions'', mcp_servers = 0,
       active_mcp_server = Some ''a'', config = ()\<rparr>)"
  by (simp add: agent_ab_def agent_a_eq agent_defs)

lemmas tool_defs =
  execute_tool_def get_available_tools_def py_or_def truthy_def registry_def Let_def

section \<open>The client's name lookup\<close>

lemma load_name_server_params:
  "load_name
     [(''self'', v1), (''server_script_path'', v2), (''is_python'', v3), (''is_js'', v4),
      (''command'', v5), (''server_parameters'', v6)] ''server_params'' =
   Inl (NameError (name_error_message ''server_params''))"
  by (simp add: load_name_def module_globals_def)

lemma connect_cases:
  "connect_to_local_mcp lib p (self, w) =
     (if endswith p ''.py'' \<or> endswith p ''.js''
      then (Inl (NameError (name_error_message ''server_params'')), self, w)
      else (Inl (ValueError ''Server script must be a .py or .js file''), self, w))"
  by (simp add: connect_to_local_mcp_def Let_def load_name_server_params)

section \<open>The registry and its active selection\<close>

text \<open>
  C1. Starting from a freshly constructed agent (any name, instructions, optional
  dictionary argument and keyword arguments, in any store), after every sequence of
  \<^verbatim>\<open>add_mcp_server\<close>, \<^verbatim>\<open>remove_mcp_server\<close> and \<^verbatim>\<open>set_active_mcp_server\<close> calls
  the active selection is \<^verbatim>\<open>None\<close> exactly when the registry is empty, and an
  active selection that is set is a key of the registry.
\<close>

theorem active_selection_invariant:
  "case run_calls calls (init nm instr arg kwargs h) of (h', self') \<Rightarrow>
     (active_mcp_server self' = None \<longleftrightarrow> registry h' self' = []) \<and>
     (\<forall>x. active_mcp_server self' = Some x \<longrightarrow> dict_contains (registry h' self') x)"
proof -
  have "active_invariant (run_calls calls (init nm instr arg kwargs h))"
    by (rule invariant_run_calls) (rule invariant_init)
  then show ?thesis
    by (auto simp: active_invariant_def split: prod.splits option.splits)
qed

text \<open>
  The scenario of the specification: on a new agent, add \<^verbatim>\<open>a\<close>, add \<^verbatim>\<open>b\<close>, remove
  \<^verbatim>\<open>a\<close> and try to activate an unknown name; \<^verbatim>\<open>b\<close> is active and registered.
\<close>

theorem active_selection_invariant_witness:
  "run_calls [Add_server ''a'' ''cfg_a'', Add_server ''b'' ''cfg_b'', Remove_server ''a'',
       Set_active ''zzz'']
     (init ''agent'' ''instructions'' None () empty_heap) =
     (\<lparr>dicts = (\<lambda>r. [])(0 := [(''b'', ''cfg_b'')]), next_ref = Suc 0\<rparr>,
      \<lparr>name = ''agent'', instructions = ''instructions'', mcp_servers = 0,
       active_mcp_server = Some ''b'', config = ()\<rparr>) \<and>
   dict_contains [(''b'', ''cfg_b'')] ''b''"
  using active_selection_invariant
    [where calls = "[Add_server ''a'' ''cfg_a'', Add_server ''b'' ''cfg_b'',
          Remove_server ''a'', Set_active ''zzz'']"
       and nm = "''agent''" and instr = "''instructions''" and arg = None and kwargs = "()"
       and h = "empty_heap :: string heap"]
  by (simp add: agent_defs)

text \<open>
  C3. On a state with an empty registry and no active server,
  \<^verbatim>\<open>add_mcp_server(n, cfg)\<close> makes \<open>n\<close> the active server; on a state whose active
  selection is set, \<^verbatim>\<open>add_mcp_server\<close> of any server leaves the active selection as
  it was. In both cases the registry afterwards maps \<open>n\<close> to \<open>cfg\<close> and is otherwise
  as before.
\<close>

theorem add_mcp_server_active:
  "(registry h self = [] \<and> active_mcp_server self = None \<longrightarrow>
      active_mcp_server (snd (add_mcp_server n cfg (h, self))) = Some n) \<and>
   (active_mcp_server self = Some x \<longrightarrow>
      active_mcp_server (snd (add_mcp_server n cfg (h, self))) = Some x) \<and>
   map_of (registry (fst (add_mcp_server n cfg (h, self))) (snd (add_mcp_server n cfg (h, self))))
     = (map_of (registry h self))(n \<mapsto> cfg)"
  by (simp add: add_mcp_server_def Let_def registry_heap_update registry_active_update
        map_of_dict_setitem)

theorem add_mcp_server_active_witness:
  "registry (fst fresh_agent) (snd fresh_agent) = [] \<and>
   active_mcp_server (snd fresh_agent) = None \<and>
   active_mcp_server (snd (add_mcp_server ''a'' ''cfg_a'' fresh_agent)) = Some ''a'' \<and>
   active_mcp_server (snd agent_a) = Some ''a'' \<and>
   active_mcp_server (snd (add_mcp_server ''b'' ''cfg_b'' agent_a)) = Some ''a''"
  using add_mcp_server_active
      [where h = "fst fresh_agent" and self = "snd fresh_agent" and n = "''a''"
         and cfg = "''cfg_a''" and x = "''a''"]
    add_mcp_server_active
      [where h = "fst agent_a" and self = "snd agent_a" and n = "''b''"
         and cfg = "''cfg_b''" and x = "''a''"]
  by (simp add: fresh_agent_eq agent_a_eq agent_defs)

text \<open>
  C4. \<^verbatim>\<open>remove_mcp_server(n)\<close> returns \<^verbatim>\<open>True\<close> exactly when \<open>n\<close> was a key of the
  registry; afterwards \<open>n\<close> is no key and every other name is mapped as before; when
  it returns \<^verbatim>\<open>False\<close> nothing has changed. If the removed server was the active one,
  the new active selection is \<^verbatim>\<open>None\<close> when the registry has become empty and a key
  of the remaining registry otherwise. If \<open>n\<close> was not the active server, the active
  selection is as before.
\<close>

theorem remove_mcp_server_result:
  "case remove_mcp_server n (h, self) of (ret, h', self') \<Rightarrow>
     (ret \<longleftrightarrow> dict_contains (registry h self) n) \<and>
     \<not> dict_contains (registry h' self') n \<and>
     (\<forall>k. k \<noteq> n \<longrightarrow> map_of (registry h' self') k = map_of (registry h self) k) \<and>
     (\<not> ret \<longrightarrow> h' = h \<and> self' = self) \<and>
     (ret \<and> active_mcp_server self = Some n \<longrightarrow>
        (if registry h' self' = [] then active_mcp_server self' = None
         else \<exists>x. active_mcp_server self' = Some x \<and> dict_contains (registry h' self') x)) \<and>
     (active_mcp_server self \<noteq> Some n \<longrightarrow> active_mcp_server self' = active_mcp_server self)"
  by (auto simp: remove_mcp_server_def Let_def registry_heap_update registry_active_update
        dict_contains_pop map_of_dict_pop first_key_None first_key_pop
      dest: first_key_Some)

text \<open>
  Removing the active \<^verbatim>\<open>a\<close> from \<^verbatim>\<open>{a, b}\<close> activates \<^verbatim>\<open>b\<close>; removing the only
  server clears the selection; removing the inactive \<^verbatim>\<open>b\<close> keeps \<^verbatim>\<open>a\<close> active;
  removing an unknown name returns \<^verbatim>\<open>False\<close>.
\<close>

theorem remove_mcp_server_result_witness:
  "remove_mcp_server ''a'' agent_ab =
     (True, \<lparr>dicts = (\<lambda>r. [])(0 := [(''b'', ''cfg_b'')]), next_ref = Suc 0\<rparr>,
      \<lparr>name = ''agent'', instructions = ''instructions'', mcp_servers = 0,
       active_mcp_server = Some ''b'', config = ()\<rparr>) \<and>
   remove_mcp_server ''a'' agent_a =
     (True, \<lparr>dicts = (\<lambda>r. [])(0 := []), next_ref = Suc 0\<rparr>,
      \<lparr>name = ''agent'', instructions = ''instructions'', mcp_servers = 0,
       active_mcp_server = None, config = ()\<rparr>) \<and>
   remove_mcp_server ''b'' agent_ab =
     (True, \<lparr>dicts = (\<lambda>r. [])(0 := [(''a'', ''cfg_a'')]), next_ref = Suc 0\<rparr>,
      \<lparr>name = ''agent'', instructions = ''instructions'', mcp_servers = 0,
       active_mcp_server = Some ''a'', config = ()\<rparr>) \<and>
   remove_mcp_server ''zzz'' agent_ab = (False, agent_ab)"
  using remove_mcp_server_result [where n = "''a''" and h = "fst agent_ab" and self = "snd agent_ab"]
    remove_mcp_server_result [where n = "''a''" and h = "fst agent_a" and self = "snd agent_a"]
    remove_mcp_server_result [where n = "''b''" and h = "fst agent_ab" and self = "snd agent_ab"]
    remove_mcp_server_result [where n = "''zzz''" and h = "fst agent_ab" and self = "snd agent_ab"]
  by (simp add: agent_ab_eq agent_a_eq agent_defs)

text \<open>
  C5. \<^verbatim>\<open>set_active_mcp_server(n)\<close> returns \<^verbatim>\<open>False\<close> and leaves the store and the
  agent as they were when \<open>n\<close> is no key of the registry; when \<open>n\<close> is a key it
  returns \<^verbatim>\<open>True\<close>, the active selection is \<open>n\<close>, and the store, hence the registry,
  is as before.
\<close>

theorem set_active_mcp_server_result:
  "(\<not> dict_contains (registry h self) n \<longrightarrow>
      set_active_mcp_server n (h, self) = (False, h, self)) \<and>
   (dict_contains (registry h self) n \<longrightarrow>
      set_active_mcp_server n (h, self) = (True, h, self\<lparr>active_mcp_server := Some n\<rparr>) \<and>
      registry h (self\<lparr>active_mcp_server := Some n\<rparr>) = registry h self)"
  by (simp add: set_active_mcp_server_def registry_active_update)

theorem set_active_mcp_server_result_witness:
  "\<not> dict_contains (registry (fst agent_ab) (snd agent_ab)) ''x'' \<and>
   set_active_mcp_server ''x'' agent_ab = (False, agent_ab) \<and>
   dict_contains (registry (fst agent_ab) (snd agent_ab)) ''b'' \<and>
   set_active_mcp_server ''b'' agent_ab =
     (True, fst agent_ab, (snd agent_ab)\<lparr>active_mcp_server := Some ''b''\<rparr>)"
  using set_active_mcp_server_result
      [where h = "fst agent_ab" and self = "snd agent_ab" and n = "''x''"]
    set_active_mcp_server_result
      [where h = "fst agent_ab" and self = "snd agent_ab" and n = "''b''"]
  by (simp add: agent_ab_eq agent_defs)

section \<open>Tool dispatch\<close>




text \<open>
  C10. In every state, \<^verbatim>\<open>execute_tool\<close> and \<^verbatim>\<open>get_available_tools\<close> called with
  \<^verbatim>\<open>server_name = ""\<close> give what they give with \<^verbatim>\<open>server_name\<close> omitted: the
  empty string is false in \<^verbatim>\<open>server_name or self.active_mcp_server\<close>, so the
  target is the active selection, and the call gives what the call naming the active
  selection gives. With no active server set both raise the no-server
  \<^verbatim>\<open>ValueError\<close>; with a non-empty active server \<open>a\<close> they go on to the registry
  check for \<open>a\<close>, raising \<^verbatim>\<open>NotImplementedError\<close> when \<open>a\<close> is registered and the
  not-found \<^verbatim>\<open>ValueError\<close> naming \<open>a\<close> otherwise; an active server that is itself
  the empty string is false as well and gives the no-server error.
\<close>

theorem empty_server_name_falls_back:
  "execute_tool tool_name tool_input (Some '''') s =
     (execute_tool tool_name tool_input None s :: py_error + 'r) \<and>
   get_available_tools (Some '''') s = (get_available_tools None s :: py_error + 'r) \<and>
   (active_mcp_server (snd s) = None \<longrightarrow>
      execute_tool tool_name tool_input (Some '''') s =
        (Inl (ValueError no_server_message) :: py_error + 'r) \<and>
      get_available_tools (Some '''') s =
        (Inl (ValueError no_server_message) :: py_error + 'r)) \<and>
   execute_tool tool_name tool_input (Some '''') s =
     (execute_tool tool_name tool_input (active_mcp_server (snd s)) s :: py_error + 'r) \<and>
   get_available_tools (Some '''') s =
     (get_available_tools (active_mcp_server (snd s)) s :: py_error + 'r) \<and>
   (active_mcp_server (snd s) = Some a \<and> a \<noteq> [] \<longrightarrow>
      execute_tool tool_name tool_input (Some '''') s =
        (if dict_contains (registry (fst s) (snd s)) a
         then Inl (NotImplementedError ''Tool execution must be implemented by subclasses'')
         else Inl (ValueError (not_found_message a)) :: py_error + 'r) \<and>
      get_available_tools (Some '''') s =
        (if dict_contains (registry (fst s) (snd s)) a
         then Inl (NotImplementedError
                    ''Getting available tools must be implemented by subclasses'')
         else Inl (ValueError (not_found_message a)) :: py_error + 'r)) \<and>
   (active_mcp_server (snd s) = Some '''' \<longrightarrow>
      execute_tool tool_name tool_input (Some '''') s =
        (Inl (ValueError no_server_message) :: py_error + 'r) \<and>
      get_available_tools (Some '''') s =
        (Inl (ValueError no_server_message) :: py_error + 'r))"
  by (cases s) (simp add: tool_defs)

text \<open>
  The four cases: no active server; \<^verbatim>\<open>a\<close> active and registered; \<^verbatim>\<open>a\<close> active
  after a caller has cleared the registry; the empty string registered and active.
\<close>

theorem empty_server_name_falls_back_witness:
  "active_mcp_server (snd fresh_agent) = None \<and>
   execute_tool ''tool'' () (Some '''') fresh_agent =
     (Inl (ValueError no_server_message) :: py_error + unit) \<and>
   get_available_tools (Some '''') fresh_agent =
     (Inl (ValueError no_server_message) :: py_error + unit) \<and>
   active_mcp_server (snd agent_a) = Some ''a'' \<and> ''a'' \<noteq> [] \<and>
   dict_contains (registry (fst agent_a) (snd agent_a)) ''a'' \<and>
   execute_tool ''tool'' () (Some '''') agent_a =
     (Inl (NotImplementedError ''Tool execution must be implemented by subclasses'')
        :: py_error + unit) \<and>
   get_available_tools (Some '''') agent_a =
     (Inl (NotImplementedError ''Getting available tools must be implemented by subclasses'')
        :: py_error + unit) \<and>
   active_mcp_server (snd (mutate_returned_mapping caller_clear agent_a)) = Some ''a'' \<and>
   \<not> dict_contains (registry (fst (mutate_returned_mapping caller_clear agent_a))
                       (snd (mutate_returned_mapping caller_clear agent_a))) ''a'' \<and>
   execute_tool ''tool'' () (Some '''') (mutate_returned_mapping caller_clear agent_a) =
     (Inl (ValueError (not_found_message ''a'')) :: py_error + unit) \<and>
   get_available_tools (Some '''') (mutate_returned_mapping caller_clear agent_a) =
     (Inl (ValueError (not_found_message ''a'')) :: py_error + unit) \<and>
   active_mcp_server (snd (add_mcp_server '''' ''cfg'' fresh_agent)) = Some '''' \<and>
   execute_tool ''tool'' () (Some '''') (add_mcp_server '''' ''cfg'' fresh_agent) =
     (Inl (ValueError no_server_message) :: py_error + unit) \<and>
   get_available_tools (Some '''') (add_mcp_server '''' ''cfg'' fresh_agent) =
     (Inl (ValueError no_server_message) :: py_error + unit)"
  using empty_server_name_falls_back
      [where tool_name = "''tool''" and tool_input = "()" and s = fresh_agent and a = "''a''"
         and ?'r = unit]
    empty_server_name_falls_back
      [where tool_name = "''tool''" and tool_input = "()" and s = agent_a and a = "''a''"
         and ?'r = unit]
    empty_server_name_falls_back
      [where tool_name = "''tool''" and tool_input = "()"
         and s = "mutate_returned_mapping caller_clear agent_a" and a = "''a''"
         and ?'r = unit]
    empty_server_name_falls_back
      [where tool_name = "''tool''" and tool_input = "()"
         and s = "add_mcp_server '''' ''cfg'' fresh_agent" and a = "''a''" and ?'r = unit]
  by (simp add: fresh_agent_eq agent_a_eq tool_defs mutate_returned_mapping_def
        caller_clear_def agent_defs)

section \<open>The mapping handed out by \<^verbatim>\<open>get_mcp_servers\<close>\<close>

text \<open>
  As the claim C6 is stated, a change of the mapping that \<^verbatim>\<open>get_mcp_servers\<close> returns
  leaves the agent's registry alone. After \<^verbatim>\<open>add_mcp_server("a", cfg_a)\<close> on a new
  agent, a caller's \<^verbatim>\<open>d["x"] = cfg_x\<close> on the returned mapping puts \<^verbatim>\<open>x\<close> into the
  registry, and a caller's \<^verbatim>\<open>d.clear()\<close> empties it while \<^verbatim>\<open>a\<close> stays active.
\<close>

theorem returned_mapping_mutation_counterexample:
  "registry (fst agent_a) (snd agent_a) = [(''a'', ''cfg_a'')] \<and>
   registry (fst (mutate_returned_mapping (caller_setitem ''x'' ''cfg_x'') agent_a))
            (snd (mutate_returned_mapping (caller_setitem ''x'' ''cfg_x'') agent_a)) =
     [(''a'', ''cfg_a''), (''x'', ''cfg_x'')] \<and>
   registry (fst (mutate_returned_mapping (caller_setitem ''x'' ''cfg_x'') agent_a))
            (snd (mutate_returned_mapping (caller_setitem ''x'' ''cfg_x'') agent_a)) \<noteq>
     registry (fst agent_a) (snd agent_a) \<and>
   registry (fst (mutate_returned_mapping caller_clear agent_a))
            (snd (mutate_returned_mapping caller_clear agent_a)) = [] \<and>
   active_mcp_server (snd (mutate_returned_mapping caller_clear agent_a)) = Some ''a'' \<and>
   \<not> active_invariant (mutate_returned_mapping caller_clear agent_a)"
  by (simp add: agent_a_eq mutate_returned_mapping_def caller_setitem_def caller_clear_def
        active_invariant_def agent_defs)

text \<open>
  C6, amended. \<^verbatim>\<open>get_mcp_servers\<close> returns the agent's own registry object, a live
  reference and no copy: the dictionary read through it is the full registry, and in
  every state an in-place change \<open>f\<close> of the returned mapping is that change of the
  agent's registry; the active selection is not touched by it.
\<close>

theorem get_mcp_servers_live_reference:
  "get_mcp_servers (h, self) = mcp_servers self \<and>
   dicts h (get_mcp_servers (h, self)) = registry h self \<and>
   (case mutate_returned_mapping f (h, self) of
      (h', self') \<Rightarrow>
        registry h' self' = f (registry h self) \<and>
        active_mcp_server self' = active_mcp_server self)"
  by (simp add: mutate_returned_mapping_def get_mcp_servers_def registry_def heap_update_def)

section \<open>Connecting to a local server\<close>

text \<open>
  C7. For every path that ends in neither \<^verbatim>\<open>.py\<close> nor \<^verbatim>\<open>.js\<close>,
  \<^verbatim>\<open>connect_to_local_mcp\<close> raises the \<^verbatim>\<open>ValueError\<close> of the suffix check (the
  specification's \<^verbatim>\<open>UnsupportedTargetError\<close>) whatever the library would do, and
  leaves the client and the running processes as they were: nothing is pushed on the
  exit stack, and on a new client the session is still \<^verbatim>\<open>None\<close>.
\<close>

theorem connect_unsupported_suffix:
  "\<not> endswith p ''.py'' \<and> \<not> endswith p ''.js'' \<longrightarrow>
     connect_to_local_mcp lib p (self, w) =
       (Inl (ValueError ''Server script must be a .py or .js file''), self, w) \<and>
     session (fst (snd (connect_to_local_mcp lib p (MCPClient_init, w)))) = None \<and>
     exit_stack (fst (snd (connect_to_local_mcp lib p (MCPClient_init, w)))) = [] \<and>
     processes (snd (snd (connect_to_local_mcp lib p (MCPClient_init, w)))) = processes w"
  by (simp add: connect_cases MCPClient_init_def)

theorem connect_unsupported_suffix_witness:
  "\<not> endswith ''server.txt'' ''.py'' \<and> \<not> endswith ''server.txt'' ''.js'' \<and>
   connect_to_local_mcp script_lib ''server.txt'' (MCPClient_init, no_processes) =
     (Inl (ValueError ''Server script must be a .py or .js file''), MCPClient_init, no_processes) \<and>
   session MCPClient_init = None"
  using connect_unsupported_suffix
    [where p = "''server.txt''" and lib = script_lib and self = MCPClient_init
       and w = no_processes]
  by (simp add: endswith_def MCPClient_init_def)

text \<open>
  Whatever the path and the library, \<^verbatim>\<open>connect_to_local_mcp\<close> leaves the client and
  the running processes as they were, and the error it raises is never one of the
  library's: no transport is ever opened, and no handshake is ever attempted.
\<close>

lemma connect_acquires_nothing:
  "snd (connect_to_local_mcp lib p (self, w)) = (self, w) \<and>
   (\<forall>m. fst (connect_to_local_mcp lib p (self, w)) \<noteq> Inl (LibraryError m))"
  by (simp add: connect_cases)

text \<open>
  C9. For every path that ends in \<^verbatim>\<open>.py\<close> or \<^verbatim>\<open>.js\<close>, \<^verbatim>\<open>connect_to_local_mcp\<close>
  raises \<^verbatim>\<open>NameError\<close> for the name \<^verbatim>\<open>server_params\<close>, which is neither a local
  variable (the local is \<^verbatim>\<open>server_parameters\<close>) nor a global of the module, with
  the client and the processes as they were: nothing has entered the exit stack. So
  for no path, library, client and world does the method return normally.
\<close>

theorem connect_raises_name_error:
  "(endswith p ''.py'' \<or> endswith p ''.js'' \<longrightarrow>
      connect_to_local_mcp lib p (self, w) =
        (Inl (NameError (name_error_message ''server_params'')), self, w)) \<and>
   fst (connect_to_local_mcp lib p (self, w)) \<noteq> Inr ()"
  by (simp add: connect_cases)

theorem connect_raises_name_error_witness:
  "endswith ''server.py'' ''.py'' \<and> endswith ''index.js'' ''.js'' \<and>
   connect_to_local_mcp script_lib ''server.py'' (MCPClient_init, no_processes) =
     (Inl (NameError (name_error_message ''server_params'')), MCPClient_init, no_processes) \<and>
   connect_to_local_mcp script_lib ''index.js'' (MCPClient_init, no_processes) =
     (Inl (NameError (name_error_message ''server_params'')), MCPClient_init, no_processes)"
  using connect_raises_name_error
      [where p = "''server.py''" and lib = script_lib and self = MCPClient_init
         and w = no_processes]
    connect_raises_name_error
      [where p = "''index.js''" and lib = script_lib and self = MCPClient_init
         and w = no_processes]
  by (simp add: endswith_def)

end
